theory Spec2Isabelle
  imports Complex_Main
begin

section \<open>Observer locations on the Earth: \<open>skyfield/toposlib.py\<close>\<close>

text \<open>
  The development embeds the class \<open>Topos\<close> of \<open>skyfield/toposlib.py\<close>: its constructor,
  \<open>compute\<close>, \<open>at\<close>, \<open>_position_and_velocity\<close> and \<open>_altaz_rotation\<close>.

  Modelling decisions, valid for the whole theory:
  \<^item> A Python \<open>float\<close> is a \<^typ>\<open>real\<close>: arithmetic is exact, rounding is not modelled.
  \<^item> A numpy array of shape \<open>(3,)\<close> is a \<open>vec3\<close>, one of shape \<open>(3, 3)\<close> is a \<open>mat3\<close>
    (three rows, the first axis of the array). The model is that of a single time instant;
    the trailing batch axis \<open>...\<close> of the \<open>einsum\<close> subscripts is absent.
  \<^item> An exception is a value \<open>Inl e\<close> of the result type \<open>error + 'a\<close>.
  \<^item> The methods are embedded twice. As functions of the attribute values they compute
    the results the module returns. As programs over a store of objects, where attribute
    reads, attribute assignments and object creation are steps, they show which objects a
    call reads, creates and changes.
  \<^item> Helpers that are imported by the module but defined elsewhere are either taken as
    parameters (record \<open>collaborators\<close>) or, where the specification fixes what they
    compute, modelled from it.
  \<^item> A leading underscore cannot start an Isabelle name: \<open>_position_and_velocity\<close> is
    \<open>position_and_velocity\<close>, \<open>_altaz_rotation\<close> is \<open>altaz_rotation\<close>,
    \<open>_interpret_ltude\<close> is \<open>interpret_ltude\<close>. \<open>Topos.at\<close> is \<open>Topos_at\<close> and
    \<open>Topos.__init__\<close> is \<open>Topos_init\<close>.
\<close>

subsection \<open>Arrays\<close>

datatype vec3 = Vec3 real real real

datatype mat3 = Mat3 vec3 vec3 vec3

text \<open>Indexing \<open>v[i]\<close> and \<open>A[i]\<close>, \<open>A[i][j]\<close> for indices \<open>0, 1, 2\<close>.\<close>

fun vnth :: "vec3 \<Rightarrow> nat \<Rightarrow> real" where
  "vnth (Vec3 a b c) i = (if i = 0 then a else if i = 1 then b else c)"

fun row :: "mat3 \<Rightarrow> nat \<Rightarrow> vec3" where
  "row (Mat3 r0 r1 r2) i = (if i = 0 then r0 else if i = 1 then r1 else r2)"

definition mnth :: "mat3 \<Rightarrow> nat \<Rightarrow> nat \<Rightarrow> real" where
  "mnth A i j = vnth (row A i) j"

text \<open>The index range of every axis, and the arrays built from their entries.\<close>

definition axis :: "nat list" where
  "axis = [0, 1, 2]"

definition array3 :: "(nat \<Rightarrow> real) \<Rightarrow> vec3" where
  "array3 f = Vec3 (f 0) (f 1) (f 2)"

definition array33 :: "(nat \<Rightarrow> nat \<Rightarrow> real) \<Rightarrow> mat3" where
  "array33 f = Mat3 (array3 (f 0)) (array3 (f 1)) (array3 (f 2))"

text \<open>
  \<open>einsum('ij...,j...->i...', A, v)\<close>: the index \<open>j\<close>, absent from the output, is summed.
\<close>

definition einsum_ij_j :: "mat3 \<Rightarrow> vec3 \<Rightarrow> vec3" where
  "einsum_ij_j A v = array3 (\<lambda>i. \<Sum>j\<leftarrow>axis. mnth A i j * vnth v j)"

text \<open>
  \<open>einsum('ij...,jk...,kl...->il...', A, B, C)\<close>: the indices \<open>j\<close> and \<open>k\<close> are summed.
\<close>

definition einsum_ij_jk_kl :: "mat3 \<Rightarrow> mat3 \<Rightarrow> mat3 \<Rightarrow> mat3" where
  "einsum_ij_jk_kl A B C =
     array33 (\<lambda>i l. \<Sum>j\<leftarrow>axis. \<Sum>k\<leftarrow>axis. mnth A i j * mnth B j k * mnth C k l)"

text \<open>The slice \<open>A[::-1]\<close> of a \<open>(3, 3)\<close> array: its rows in reverse order.\<close>

fun reversed :: "mat3 \<Rightarrow> mat3" where
  "reversed (Mat3 r0 r1 r2) = Mat3 r2 r1 r0"

text \<open>Elementwise \<open>u + v\<close> of two arrays of shape \<open>(3,)\<close>.\<close>

fun vadd :: "vec3 \<Rightarrow> vec3 \<Rightarrow> vec3" where
  "vadd (Vec3 a b c) (Vec3 d e f) = Vec3 (a + d) (b + e) (c + f)"

subsection \<open>Linear algebra the specification speaks of\<close>

definition mat_vec :: "mat3 \<Rightarrow> vec3 \<Rightarrow> vec3" where
  "mat_vec A v = Vec3 (mnth A 0 0 * vnth v 0 + mnth A 0 1 * vnth v 1 + mnth A 0 2 * vnth v 2)
                      (mnth A 1 0 * vnth v 0 + mnth A 1 1 * vnth v 1 + mnth A 1 2 * vnth v 2)
                      (mnth A 2 0 * vnth v 0 + mnth A 2 1 * vnth v 1 + mnth A 2 2 * vnth v 2)"

definition col :: "mat3 \<Rightarrow> nat \<Rightarrow> vec3" where
  "col A j = Vec3 (mnth A 0 j) (mnth A 1 j) (mnth A 2 j)"

definition mat_mul :: "mat3 \<Rightarrow> mat3 \<Rightarrow> mat3" where
  "mat_mul A B = array33 (\<lambda>i j. vnth (mat_vec A (col B j)) i)"

definition transpose3 :: "mat3 \<Rightarrow> mat3" where
  "transpose3 A = Mat3 (col A 0) (col A 1) (col A 2)"

definition identity3 :: mat3 where
  "identity3 = Mat3 (Vec3 1 0 0) (Vec3 0 1 0) (Vec3 0 0 1)"


subsection \<open>Constants and rotations imported by the module\<close>

text \<open>
  Modelled from the spec: \<open>tau\<close> of \<open>skyfield/constants.py\<close>, which is not part of the
  sources at hand. The specification converts sidereal hours to radians by \<open>2\<pi>/24\<close>, "the
  full-circle-per-24-hours convention": \<open>tau\<close> is the full circle.
\<close>

definition tau :: real where
  "tau = 2 * pi"

text \<open>
  Modelled from the spec: \<open>ASEC2RAD\<close> of \<open>skyfield/constants.py\<close>, the factor that
  converts "from arcseconds to radians": a radian is \<open>180 * 3600 / \<pi>\<close> arcseconds.
\<close>

definition ASEC2RAD :: real where
  "ASEC2RAD = pi / 648000"

text \<open>
  Modelled from the spec: \<open>rot_x\<close>, \<open>rot_y\<close>, \<open>rot_z\<close> of \<open>skyfield/functions.py\<close>, the
  rotations "about the X-axis", "about the Y-axis" and the "Z-axis rotation" by an angle in
  radians, as "standard right-handed 3\<times>3 rotation matrices".
\<close>

definition rot_x :: "real \<Rightarrow> mat3" where
  "rot_x theta = Mat3 (Vec3 1 0 0)
                      (Vec3 0 (cos theta) (- sin theta))
                      (Vec3 0 (sin theta) (cos theta))"

definition rot_y :: "real \<Rightarrow> mat3" where
  "rot_y theta = Mat3 (Vec3 (cos theta) 0 (sin theta))
                      (Vec3 0 1 0)
                      (Vec3 (- sin theta) 0 (cos theta))"

definition rot_z :: "real \<Rightarrow> mat3" where
  "rot_z theta = Mat3 (Vec3 (cos theta) (- sin theta) 0)
                      (Vec3 (sin theta) (cos theta) 0)
                      (Vec3 0 0 1)"

subsection \<open>Values, errors and the objects of the data model\<close>

datatype error = TypeError string | ValueError string | KeyError string

text \<open>
  \<open>Angle\<close> and \<open>Distance\<close> of \<open>skyfield/units.py\<close>: the module reads \<open>.radians\<close> of an
  angle and \<open>.au\<close> of a distance, nothing else.
\<close>

record angle =
  radians :: real

record distance =
  au :: real

text \<open>A Python value as the constructor may receive it for a coordinate.\<close>

datatype pyval =
    PyNone
  | PyBool bool
  | PyInt int
  | PyFloat real
  | PyStr string
  | PyTuple "pyval list"
  | PyList "pyval list"
  | PyAngle angle

text \<open>\<open>isinstance(v, (str, float, tuple))\<close> and \<open>isinstance(v, Angle)\<close>.\<close>

fun isinstance_str_float_tuple :: "pyval \<Rightarrow> bool" where
  "isinstance_str_float_tuple (PyStr s) = True"
| "isinstance_str_float_tuple (PyFloat r) = True"
| "isinstance_str_float_tuple (PyTuple vs) = True"
| "isinstance_str_float_tuple v = False"

fun isinstance_Angle :: "pyval \<Rightarrow> bool" where
  "isinstance_Angle (PyAngle a) = True"
| "isinstance_Angle v = False"

text \<open>
  The Earth-orientation state of an instant, the \<open>jd\<close> argument of every method: the
  module reads its \<open>M\<close>, \<open>MT\<close> and \<open>gast\<close>.
\<close>

record julian_date =
  M :: mat3
  MT :: mat3
  gast :: real

text \<open>
  An ephemeris is indexed by a name and gives a body; \<open>body.at(jd)\<close> gives a position whose
  \<open>.position.au\<close> and \<open>.velocity.au_per_d\<close> are the pair the body is modelled by.
\<close>

type_synonym body = "julian_date \<Rightarrow> vec3 \<times> vec3"

type_synonym ephemeris = "string \<rightharpoonup> body"

text \<open>
  The attributes of a \<open>Topos\<close>. \<open>self.code = self\<close> and
  \<open>self.segments = [Segment(399, self, self.compute)]\<close> refer back to the object: they are
  the functions \<open>code\<close> and \<open>segments\<close> below, not fields.
\<close>

record topos =
  latitude :: angle
  longitude :: angle
  elevation :: distance
  x :: real
  y :: real
  R_lat :: mat3
  ephemeris :: "ephemeris option"

text \<open>
  Helpers the module imports whose results the specification leaves open, as parameters:
  \<open>terra\<close> of \<open>earthlib\<close>, and of \<open>units\<close> the normalizer \<open>_interpret_ltude\<close>, the
  constructor call \<open>Angle(degrees=d)\<close> and the constructor call \<open>Distance(m=e)\<close>. The two
  that receive a value of any type may raise.
\<close>

record collaborators =
  terra :: "real \<Rightarrow> real \<Rightarrow> real \<Rightarrow> real \<Rightarrow> vec3 \<times> vec3"
  interpret_ltude :: "pyval \<Rightarrow> string \<Rightarrow> string \<Rightarrow> string \<Rightarrow> error + angle"
  Angle_degrees :: "pyval \<Rightarrow> error + angle"
  Distance_m :: "real \<Rightarrow> distance"

subsection \<open>The constructor\<close>

text \<open>The keyword arguments of \<open>Topos.__init__\<close> and their defaults.\<close>

record kwargs =
  kw_latitude :: pyval
  kw_longitude :: pyval
  kw_latitude_degrees :: pyval
  kw_longitude_degrees :: pyval
  kw_elevation_m :: real
  kw_x :: real
  kw_y :: real

definition defaults :: kwargs where
  "defaults = \<lparr>kw_latitude = PyNone, kw_longitude = PyNone, kw_latitude_degrees = PyNone,
                kw_longitude_degrees = PyNone, kw_elevation_m = 0, kw_x = 0, kw_y = 0\<rparr>"

definition latitude_message :: string where
  "latitude_message = ''please provide either latitude_degrees=<float>''
                    @ '' or latitude=<skyfield.units.Angle object>''
                    @ '' with north being positive''"

definition longitude_message :: string where
  "longitude_message = ''please provide either longitude_degrees=<float>''
                     @ '' or longitude=<skyfield.units.Angle object>''
                     @ '' with east being positive''"

text \<open>The two \<open>if\<close>/\<open>elif\<close>/\<open>elif\<close> chains that normalise the coordinates.\<close>

definition normalise_latitude :: "collaborators \<Rightarrow> kwargs \<Rightarrow> error + angle" where
  "normalise_latitude ext kw =
     (if kw_latitude_degrees kw \<noteq> PyNone then Angle_degrees ext (kw_latitude_degrees kw)
      else if isinstance_str_float_tuple (kw_latitude kw)
        then interpret_ltude ext (kw_latitude kw) ''latitude'' ''N'' ''S''
      else if \<not> isinstance_Angle (kw_latitude kw) then Inl (TypeError latitude_message)
      else (case kw_latitude kw of PyAngle a \<Rightarrow> Inr a | _ \<Rightarrow> Inl (TypeError latitude_message)))"

definition normalise_longitude :: "collaborators \<Rightarrow> kwargs \<Rightarrow> error + angle" where
  "normalise_longitude ext kw =
     (if kw_longitude_degrees kw \<noteq> PyNone then Angle_degrees ext (kw_longitude_degrees kw)
      else if isinstance_str_float_tuple (kw_longitude kw)
        then interpret_ltude ext (kw_longitude kw) ''longitude'' ''E'' ''W''
      else if \<not> isinstance_Angle (kw_longitude kw) then Inl (TypeError longitude_message)
      else (case kw_longitude kw of PyAngle a \<Rightarrow> Inr a | _ \<Rightarrow> Inl (TypeError longitude_message)))"

text \<open>
  \<open>Topos.__init__\<close>: the latitude chain, the longitude chain, then the assignments. An
  exception of the first chain leaves the second unevaluated.
\<close>

definition Topos_init :: "collaborators \<Rightarrow> kwargs \<Rightarrow> error + topos" where
  "Topos_init ext kw =
     (case normalise_latitude ext kw of
        Inl e \<Rightarrow> Inl e
      | Inr lat \<Rightarrow>
          (case normalise_longitude ext kw of
             Inl e \<Rightarrow> Inl e
           | Inr lon \<Rightarrow>
               Inr \<lparr>latitude = lat,
                    longitude = lon,
                    elevation = Distance_m ext (kw_elevation_m kw),
                    x = kw_x kw,
                    y = kw_y kw,
                    R_lat = reversed (rot_y (radians lat)),
                    ephemeris = None\<rparr>))"

subsection \<open>The methods\<close>

text \<open>
  \<open>Topos._position_and_velocity\<close>. The locals \<open>pos\<close> and \<open>vel\<close> are rebound statement by
  statement; \<open>if self.x:\<close> tests a float, which is true when it is not zero.
\<close>

definition position_and_velocity :: "collaborators \<Rightarrow> topos \<Rightarrow> julian_date \<Rightarrow> vec3 \<times> vec3" where
  "position_and_velocity ext self jd =
     (let (pos, vel) = terra ext (radians (latitude self)) (radians (longitude self))
                                 (au (elevation self)) (gast jd);
          pos = einsum_ij_j (MT jd) pos;
          vel = einsum_ij_j (MT jd) vel;
          pos = (if x self \<noteq> 0 then einsum_ij_j (rot_y (x self * ASEC2RAD)) pos else pos);
          pos = (if y self \<noteq> 0 then einsum_ij_j (rot_x (y self * ASEC2RAD)) pos else pos)
      in (pos, vel))"

text \<open>\<open>Topos._altaz_rotation\<close>.\<close>

definition altaz_rotation :: "topos \<Rightarrow> julian_date \<Rightarrow> mat3" where
  "altaz_rotation self jd =
     (let R_lon = rot_z (- radians (longitude self) - gast jd * tau / 24)
      in einsum_ij_jk_kl (R_lat self) R_lon (M jd))"

text \<open>\<open>Topos.compute\<close>.\<close>

definition compute :: "collaborators \<Rightarrow> topos \<Rightarrow> julian_date \<Rightarrow> vec3 \<times> vec3" where
  "compute ext self jd =
     (let (position, velocity) = position_and_velocity ext self jd
      in (position, velocity))"

text \<open>
  \<open>self.code\<close> and \<open>self.segments\<close>, as the constructor sets them: the one segment holds the
  centre \<open>399\<close>, the object itself and its bound method \<open>compute\<close>.
\<close>

datatype segment = Segment (center: int) (target: topos) (compute_function: body)

definition code :: "topos \<Rightarrow> topos" where
  "code self = self"

definition segments :: "collaborators \<Rightarrow> topos \<Rightarrow> segment list" where
  "segments ext self = [Segment 399 self (compute ext self)]"

text \<open>
  The result of \<open>Topos.at\<close>: an object of class \<open>Geocentric\<close> or \<open>Barycentric\<close>, made from a
  position, a velocity and the date, with the attributes the method sets afterwards. An
  attribute that only one branch sets is \<open>None\<close> in the other.
\<close>

datatype position_class = Geocentric | Barycentric

record icrs =
  cls :: position_class
  position_au :: vec3
  velocity_au_per_d :: vec3
  date :: julian_date
  geocentric_flag :: "bool option"
  rGCRS :: "vec3 option"
  vGCRS :: "vec3 option"
  observer :: topos
  attached_ephemeris :: "ephemeris option"
  attached_altaz_rotation :: mat3

text \<open>
  \<open>Topos.at\<close>, called with a date (the decorator \<open>takes_julian_date\<close> passes a date on as
  it is). \<open>self.ephemeris['earth']\<close> raises \<open>KeyError\<close> when the ephemeris has no such body.
\<close>

definition Topos_at :: "collaborators \<Rightarrow> topos \<Rightarrow> julian_date \<Rightarrow> error + icrs" where
  "Topos_at ext self jd =
     (let (tpos_au, tvel_au_per_d) = position_and_velocity ext self jd
      in case ephemeris self of
           None \<Rightarrow>
             Inr \<lparr>cls = Geocentric, position_au = tpos_au, velocity_au_per_d = tvel_au_per_d,
                  date = jd, geocentric_flag = None, rGCRS = None, vGCRS = None,
                  observer = self, attached_ephemeris = ephemeris self,
                  attached_altaz_rotation = altaz_rotation self jd\<rparr>
         | Some eph \<Rightarrow>
             (case eph ''earth'' of
                None \<Rightarrow> Inl (KeyError ''earth'')
              | Some earth \<Rightarrow>
                  (let e = earth jd
                   in Inr \<lparr>cls = Barycentric,
                           position_au = vadd (fst e) tpos_au,
                           velocity_au_per_d = vadd (snd e) tvel_au_per_d,
                           date = jd, geocentric_flag = Some False,
                           rGCRS = Some tpos_au, vGCRS = Some tvel_au_per_d,
                           observer = self, attached_ephemeris = ephemeris self,
                           attached_altaz_rotation = altaz_rotation self jd\<rparr>)))"

subsection \<open>Objects in a store\<close>

text \<open>
  A Python object is a dictionary of attributes at an address; a method receives \<open>self\<close>
  and \<open>jd\<close> as addresses, and an assignment \<open>o.name = v\<close> changes the dictionary at the
  address of \<open>o\<close>. The store holds the dictionaries, the next free address, and the list
  of the attribute assignments made so far, in order.

  A value is what an attribute or a local can hold here. An \<open>Angle\<close> and a \<open>Distance\<close>
  are held as values, an ephemeris by a handle, another object by its address.
  \<open>Segment(399, self, self.compute)\<close> is the centre, the target and the object whose
  bound method \<open>compute\<close> it is.
\<close>

type_synonym addr = nat

datatype val =
    Val_None
  | Val_bool bool
  | Val_float real
  | Val_Angle angle
  | Val_Distance distance
  | Val_array vec3
  | Val_matrix mat3
  | Val_class position_class
  | Val_ephemeris nat
  | Val_ref addr
  | Val_segments "(int \<times> addr \<times> addr) list"

type_synonym object = "string \<rightharpoonup> val"

record store =
  heap :: "addr \<rightharpoonup> object"
  next_addr :: addr
  assignments :: "(addr \<times> string) list"

text \<open>
  A program runs on a store and returns an exception or a value, and the store it leaves.
  \<open>AttributeError\<close> is what a read of a missing attribute raises; the other exceptions
  are those of the functional model.
\<close>

datatype exc = AttributeError string | Raised error

type_synonym 'a prog = "store \<Rightarrow> (exc + 'a) \<times> store"

definition return_value :: "'a \<Rightarrow> 'a prog" where
  "return_value v s = (Inr v, s)"

definition raise_exc :: "exc \<Rightarrow> 'a prog" where
  "raise_exc e s = (Inl e, s)"





subsection \<open>What the other modules do with the store\<close>









subsection \<open>The methods as programs over the store\<close>







text \<open>
  \<open>Topos.__init__\<close>: a new object without attributes is created and handed to the
  constructor as \<open>self\<close>; the two chains normalise the coordinates and may raise; the
  nine assignments follow in the order of the source.
\<close>

definition raising :: "error + 'a \<Rightarrow> 'a prog" where
  "raising r = (case r of Inl e \<Rightarrow> raise_exc (Raised e) | Inr v \<Rightarrow> return_value v)"





subsection \<open>What a run leaves as it was\<close>

text \<open>
  A run from \<open>s\<close> to \<open>s'\<close> keeps the object at \<open>a\<close>: its dictionary is the same, and no
  assignment to one of its attributes has been added. A program spares the object at
  \<open>a\<close> when every run from a store in which \<open>a\<close> is in use keeps it, and a returned value
  satisfies \<open>Q\<close>. A program is quiet when no run of it assigns or creates anything.
\<close>

definition keeps :: "addr \<Rightarrow> store \<Rightarrow> store \<Rightarrow> bool" where
  "keeps a s s' = (heap s' a = heap s a \<and> next_addr s \<le> next_addr s'
                   \<and> filter (\<lambda>w. fst w = a) (assignments s')
                     = filter (\<lambda>w. fst w = a) (assignments s))"

definition spares :: "addr \<Rightarrow> 'a prog \<Rightarrow> ('a \<Rightarrow> bool) \<Rightarrow> bool" where
  "spares a m Q = (\<forall>s::store. a < next_addr s \<longrightarrow>
                    (case m s of (r, s') \<Rightarrow> keeps a s s'
                       \<and> (case r of Inl e \<Rightarrow> True | Inr v \<Rightarrow> Q v)))"




subsection \<open>Notions of the specification\<close>

text \<open>
  The pipeline "with no polar-motion stage at all", in the words of the specification
  (steps 1, 2 and 6 of its algorithm): \<open>terra\<close>, then \<open>MT \<cdot> v\<close> for both vectors.
\<close>

definition position_and_velocity_without_polar_stage ::
    "collaborators \<Rightarrow> topos \<Rightarrow> julian_date \<Rightarrow> vec3 \<times> vec3" where
  "position_and_velocity_without_polar_stage ext self jd =
     (let (posTerr, velTerr) = terra ext (radians (latitude self)) (radians (longitude self))
                                         (au (elevation self)) (gast jd)
      in (mat_vec (MT jd) posTerr, mat_vec (MT jd) velTerr))"

text \<open>The polar-motion stage on its own: what steps 3 and 4 do to a position.\<close>

definition polar_motion :: "topos \<Rightarrow> vec3 \<Rightarrow> vec3" where
  "polar_motion self pos =
     (let pos1 = (if x self \<noteq> 0 then mat_vec (rot_y (x self * ASEC2RAD)) pos else pos)
      in if y self \<noteq> 0 then mat_vec (rot_x (y self * ASEC2RAD)) pos1 else pos1)"





subsection \<open>Concrete objects for evaluation\<close>

text \<open>
  Stand-ins for the parameters, used only where a theorem is evaluated at a concrete
  input. Every theorem below holds for all collaborators.
\<close>

definition example_collaborators :: collaborators where
  "example_collaborators =
     \<lparr>terra = (\<lambda>lat lon el g. (Vec3 (1 + el) lat lon, Vec3 g (1 + el) 0)),
      interpret_ltude = (\<lambda>v name p n. case v of
                            PyFloat d \<Rightarrow> Inr \<lparr>radians = d * tau / 360\<rparr>
                          | _ \<Rightarrow> Inl (ValueError name)),
      Angle_degrees = (\<lambda>v. case v of
                            PyFloat d \<Rightarrow> Inr \<lparr>radians = d * tau / 360\<rparr>
                          | _ \<Rightarrow> Inl (TypeError ''degrees'')),
      Distance_m = (\<lambda>e. \<lparr>au = e / 149597870700\<rparr>)\<rparr>"

definition equator_kwargs :: kwargs where
  "equator_kwargs = defaults\<lparr>kw_latitude := PyAngle \<lparr>radians = 0\<rparr>,
                             kw_longitude := PyAngle \<lparr>radians = 0\<rparr>\<rparr>"

definition equator_topos :: topos where
  "equator_topos = \<lparr>latitude = \<lparr>radians = 0\<rparr>, longitude = \<lparr>radians = 0\<rparr>,
                    elevation = \<lparr>au = 0\<rparr>, x = 0, y = 0,
                    R_lat = Mat3 (Vec3 0 0 1) (Vec3 0 1 0) (Vec3 1 0 0),
                    ephemeris = None\<rparr>"

definition example_date :: julian_date where
  "example_date = \<lparr>M = identity3, MT = identity3, gast = 0\<rparr>"

definition example_ephemeris :: ephemeris where
  "example_ephemeris = [''earth'' \<mapsto> (\<lambda>jd. (Vec3 10 20 30, Vec3 4 5 6))]"




section \<open>Lemmas\<close>

subsection \<open>Arrays and matrices\<close>

lemma mat3_entries:
  obtains a b c d e f g h k where "A = Mat3 (Vec3 a b c) (Vec3 d e f) (Vec3 g h k)"
proof (cases A)
  case (Mat3 r0 r1 r2)
  then show ?thesis using that by (cases r0; cases r1; cases r2) simp
qed

lemmas array_defs = mnth_def array3_def array33_def axis_def col_def mat_vec_def mat_mul_def
  transpose3_def identity3_def

text \<open>The two contractions are the matrix-vector product and the product of three matrices.\<close>

lemma einsum_ij_j_mat_vec: "einsum_ij_j A v = mat_vec A v"
  by (simp add: einsum_ij_j_def mat_vec_def array3_def axis_def)

lemma mat_mul_assoc: "mat_mul (mat_mul A B) C = mat_mul A (mat_mul B C)"
  by (cases A rule: mat3_entries; cases B rule: mat3_entries; cases C rule: mat3_entries)
     (simp add: array_defs algebra_simps)

lemma einsum_ij_jk_kl_mat_mul: "einsum_ij_jk_kl A B C = mat_mul A (mat_mul B C)"
  by (cases A rule: mat3_entries; cases B rule: mat3_entries; cases C rule: mat3_entries)
     (simp add: einsum_ij_jk_kl_def array_defs algebra_simps)

lemma mat_vec_identity3: "mat_vec identity3 v = v"
  by (cases v) (simp add: array_defs)

lemma mat_vec_mat_mul: "mat_vec (mat_mul A B) v = mat_vec A (mat_vec B v)"
  by (cases A rule: mat3_entries; cases B rule: mat3_entries; cases v)
     (simp add: array_defs algebra_simps)

subsection \<open>Orthogonal matrices\<close>



subsection \<open>The constructor and the methods\<close>

text \<open>The method body, with the contractions read as matrix-vector products.\<close>

lemma position_and_velocity_unfolded:
  "position_and_velocity ext self jd =
     (polar_motion self (mat_vec (MT jd)
         (fst (terra ext (radians (latitude self)) (radians (longitude self))
                         (au (elevation self)) (gast jd)))),
      mat_vec (MT jd)
         (snd (terra ext (radians (latitude self)) (radians (longitude self))
                         (au (elevation self)) (gast jd))))"
  by (simp add: position_and_velocity_def polar_motion_def einsum_ij_j_mat_vec Let_def
      split: prod.split)

lemma polar_motion_zero: "x self = 0 \<Longrightarrow> y self = 0 \<Longrightarrow> polar_motion self pos = pos"
  by (simp add: polar_motion_def)







subsection \<open>Programs that spare an object\<close>

lemma keeps_refl: "keeps a s s"
  by (simp add: keeps_def)


lemma spares_weaken: "spares a m Q \<Longrightarrow> (\<And>v. Q v \<Longrightarrow> R v) \<Longrightarrow> spares a m R"
  by (fastforce simp add: spares_def split: prod.splits sum.splits)

lemma spares_return_value: "Q v \<Longrightarrow> spares a (return_value v) Q"
  by (simp add: spares_def return_value_def keeps_refl)

lemma spares_raise_exc: "spares a (raise_exc e) Q"
  by (simp add: spares_def raise_exc_def keeps_refl)











lemma spares_raising: "spares a (raising r) (\<lambda>v. True)"
  by (cases r) (simp_all add: raising_def spares_return_value spares_raise_exc)














subsection \<open>Programs that assign nothing\<close>











subsection \<open>Runs of the constructor and of the reading methods\<close>





subsection \<open>The concrete objects\<close>

lemma Topos_init_equator: "Topos_init example_collaborators equator_kwargs = Inr equator_topos"
  by (simp add: Topos_init_def normalise_latitude_def normalise_longitude_def equator_kwargs_def
      defaults_def equator_topos_def example_collaborators_def rot_y_def)

lemma position_and_velocity_example:
  "position_and_velocity example_collaborators (equator_topos\<lparr>ephemeris := e\<rparr>) example_date
     = (Vec3 1 0 0, Vec3 0 1 0)"
  by (simp add: position_and_velocity_unfolded polar_motion_def mat_vec_identity3
      example_collaborators_def equator_topos_def example_date_def)

lemma altaz_rotation_example:
  "altaz_rotation (equator_topos\<lparr>ephemeris := e\<rparr>) example_date
     = Mat3 (Vec3 0 0 1) (Vec3 0 1 0) (Vec3 1 0 0)"
  by (simp add: altaz_rotation_def equator_topos_def example_date_def rot_z_def
      einsum_ij_jk_kl_def array_defs)






section \<open>The claims\<close>

text \<open>
  C1. \<open>_position_and_velocity\<close> obtains \<open>(posTerr, velTerr)\<close> from
  \<open>terra(latitude, longitude, elevationAU, gast)\<close> and rotates both vectors as \<open>MT \<cdot> v\<close>:
  the returned velocity is \<open>MT \<cdot> velTerr\<close> and the returned position is the polar-motion
  stage applied to \<open>MT \<cdot> posTerr\<close>. When \<open>MT\<close> is the identity and both polar offsets are
  zero, the result is the output of \<open>terra\<close> unchanged (for every \<open>gast\<close> and every \<open>M\<close>, so
  for \<open>gast = 0\<close> and \<open>M\<close> the identity).
\<close>

theorem position_and_velocity_rotates_terra:
  "snd (position_and_velocity ext self jd) =
     mat_vec (MT jd) (snd (terra ext (radians (latitude self)) (radians (longitude self))
                                     (au (elevation self)) (gast jd)))
   \<and> fst (position_and_velocity ext self jd) =
     polar_motion self
       (mat_vec (MT jd) (fst (terra ext (radians (latitude self)) (radians (longitude self))
                                        (au (elevation self)) (gast jd))))
   \<and> (MT jd = identity3 \<and> x self = 0 \<and> y self = 0 \<longrightarrow>
        position_and_velocity ext self jd =
          terra ext (radians (latitude self)) (radians (longitude self))
                    (au (elevation self)) (gast jd))"
  by (simp add: position_and_velocity_unfolded polar_motion_zero mat_vec_identity3)

theorem position_and_velocity_rotates_terra_witness:
  "M example_date = identity3 \<and> MT example_date = identity3 \<and> gast example_date = 0
   \<and> x equator_topos = 0 \<and> y equator_topos = 0
   \<and> terra example_collaborators 0 0 0 0 = (Vec3 1 0 0, Vec3 0 1 0)
   \<and> position_and_velocity example_collaborators equator_topos example_date
       = (Vec3 1 0 0, Vec3 0 1 0)"
  using position_and_velocity_rotates_terra
          [where ext = example_collaborators and self = equator_topos and jd = example_date]
  by (simp add: example_collaborators_def equator_topos_def example_date_def)

text \<open>
  C2. The matrix returned by \<open>_altaz_rotation\<close> is \<open>R_lat \<cdot> R_lon \<cdot> M\<close>, where \<open>R_lon\<close> is the
  Z-axis rotation by \<open>-(longitude + gast \<cdot> (2\<pi>/24))\<close>, \<open>R_lat\<close> is the matrix stored in the
  location and \<open>M\<close> is the matrix of the orientation state; the product does not depend on
  the bracketing, and applied to a vector the rightmost matrix acts first.
\<close>

theorem altaz_rotation_composition:
  "altaz_rotation self jd =
     mat_mul (R_lat self)
       (mat_mul (rot_z (- (radians (longitude self) + gast jd * (2 * pi / 24)))) (M jd))
   \<and> altaz_rotation self jd =
     mat_mul (mat_mul (R_lat self)
                (rot_z (- (radians (longitude self) + gast jd * (2 * pi / 24))))) (M jd)
   \<and> mat_vec (altaz_rotation self jd) v =
     mat_vec (R_lat self)
       (mat_vec (rot_z (- (radians (longitude self) + gast jd * (2 * pi / 24))))
          (mat_vec (M jd) v))"
proof -
  have angle: "- radians (longitude self) - gast jd * tau / 24
             = - (radians (longitude self) + gast jd * (2 * pi / 24))"
    by (simp add: tau_def)
  have R: "altaz_rotation self jd =
     mat_mul (R_lat self)
       (mat_mul (rot_z (- (radians (longitude self) + gast jd * (2 * pi / 24)))) (M jd))"
    unfolding altaz_rotation_def Let_def angle by (rule einsum_ij_jk_kl_mat_mul)
  show ?thesis
    by (simp only: R mat_mul_assoc mat_vec_mat_mul)
qed

theorem altaz_rotation_composition_witness:
  "altaz_rotation equator_topos example_date = Mat3 (Vec3 0 0 1) (Vec3 0 1 0) (Vec3 1 0 0)
   \<and> mat_vec (altaz_rotation equator_topos example_date) (Vec3 1 2 3) = Vec3 3 2 1"
  using altaz_rotation_composition [where self = equator_topos and jd = example_date
      and v = "Vec3 1 2 3"]
  by (simp add: equator_topos_def example_date_def rot_z_def array_defs)

text \<open>
  C3. The polar-motion correction reaches the position only. The returned velocity is the
  one computed with both offsets zero; the returned position is the zero-offset position,
  rotated about the Y-axis by \<open>x \<cdot> ASEC2RAD\<close> when \<open>x\<close> is not zero and then about the
  X-axis by \<open>y \<cdot> ASEC2RAD\<close> when \<open>y\<close> is not zero.
\<close>

theorem polar_motion_leaves_velocity:
  "snd (position_and_velocity ext self jd)
     = snd (position_and_velocity ext (self\<lparr>x := 0, y := 0\<rparr>) jd)
   \<and> fst (position_and_velocity ext self jd)
     = (if y self \<noteq> 0 then mat_vec (rot_x (y self * ASEC2RAD)) else id)
         ((if x self \<noteq> 0 then mat_vec (rot_y (x self * ASEC2RAD)) else id)
            (fst (position_and_velocity ext (self\<lparr>x := 0, y := 0\<rparr>) jd)))"
  by (simp add: position_and_velocity_unfolded polar_motion_def)

text \<open>
  At an offset \<open>x\<close> of 324000 arcseconds, a quarter turn, the position \<open>(1, 0, 0)\<close> becomes
  \<open>(0, 0, -1)\<close> and the velocity stays \<open>(0, 1, 0)\<close>.
\<close>

theorem polar_motion_leaves_velocity_witness:
  "position_and_velocity example_collaborators (equator_topos\<lparr>x := 324000\<rparr>) example_date
     = (Vec3 0 0 (- 1), Vec3 0 1 0)
   \<and> position_and_velocity example_collaborators
        ((equator_topos\<lparr>x := 324000\<rparr>)\<lparr>x := 0, y := 0\<rparr>) example_date
     = (Vec3 1 0 0, Vec3 0 1 0)"
proof -
  let ?self = "equator_topos\<lparr>x := 324000\<rparr>"
  have z: "?self\<lparr>x := 0, y := 0\<rparr> = equator_topos\<lparr>ephemeris := None\<rparr>"
    by (simp add: equator_topos_def)
  have p0: "position_and_velocity example_collaborators (?self\<lparr>x := 0, y := 0\<rparr>) example_date
     = (Vec3 1 0 0, Vec3 0 1 0)"
    unfolding z by (rule position_and_velocity_example)
  have r: "mat_vec (rot_y (324000 * ASEC2RAD)) (Vec3 1 0 0) = Vec3 0 0 (- 1)"
    by (simp add: ASEC2RAD_def rot_y_def mat_vec_def mnth_def)
  have xy: "x ?self = 324000" "y ?self = 0"
    by (simp_all add: equator_topos_def)
  have "fst (position_and_velocity example_collaborators ?self example_date) = Vec3 0 0 (- 1)"
    and "snd (position_and_velocity example_collaborators ?self example_date) = Vec3 0 1 0"
    using polar_motion_leaves_velocity
            [where ext = example_collaborators and self = ?self and jd = example_date]
    by (simp_all only: p0 xy r fst_conv snd_conv id_apply if_False if_True simp_thms
          numeral_neq_zero not_False_eq_True)
  then show ?thesis
    using p0 by (simp add: prod_eq_iff)
qed

text \<open>
  C4. \<open>Topos.at\<close> without an ephemeris returns a \<open>Geocentric\<close> object made from exactly the
  pair of \<open>_position_and_velocity\<close>, with the horizon rotation attached. With an ephemeris
  that has the body \<open>'earth'\<close> it returns a \<open>Barycentric\<close> object whose position and
  velocity are those of the Earth at that date plus the observer's geocentric pair, with
  the horizon rotation attached.
\<close>

theorem at_geocentric_or_barycentric:
  "(ephemeris self = None \<longrightarrow>
      Topos_at ext self jd =
        Inr \<lparr>cls = Geocentric,
             position_au = fst (position_and_velocity ext self jd),
             velocity_au_per_d = snd (position_and_velocity ext self jd),
             date = jd, geocentric_flag = None, rGCRS = None, vGCRS = None,
             observer = self, attached_ephemeris = None,
             attached_altaz_rotation = altaz_rotation self jd\<rparr>)
   \<and> (ephemeris self = Some eph \<and> eph ''earth'' = Some earth \<longrightarrow>
      Topos_at ext self jd =
        Inr \<lparr>cls = Barycentric,
             position_au = vadd (fst (earth jd)) (fst (position_and_velocity ext self jd)),
             velocity_au_per_d = vadd (snd (earth jd)) (snd (position_and_velocity ext self jd)),
             date = jd, geocentric_flag = Some False,
             rGCRS = Some (fst (position_and_velocity ext self jd)),
             vGCRS = Some (snd (position_and_velocity ext self jd)),
             observer = self, attached_ephemeris = Some eph,
             attached_altaz_rotation = altaz_rotation self jd\<rparr>)"
  by (simp add: Topos_at_def Let_def split: prod.split)

theorem at_geocentric_or_barycentric_witness:
  "ephemeris equator_topos = None
   \<and> Topos_at example_collaborators equator_topos example_date =
        Inr \<lparr>cls = Geocentric, position_au = Vec3 1 0 0, velocity_au_per_d = Vec3 0 1 0,
             date = example_date, geocentric_flag = None, rGCRS = None, vGCRS = None,
             observer = equator_topos, attached_ephemeris = None,
             attached_altaz_rotation = Mat3 (Vec3 0 0 1) (Vec3 0 1 0) (Vec3 1 0 0)\<rparr>
   \<and> ephemeris (equator_topos\<lparr>ephemeris := Some example_ephemeris\<rparr>) = Some example_ephemeris
   \<and> example_ephemeris ''earth'' = Some (\<lambda>jd. (Vec3 10 20 30, Vec3 4 5 6))
   \<and> Topos_at example_collaborators (equator_topos\<lparr>ephemeris := Some example_ephemeris\<rparr>)
        example_date =
        Inr \<lparr>cls = Barycentric, position_au = Vec3 11 20 30, velocity_au_per_d = Vec3 4 6 6,
             date = example_date, geocentric_flag = Some False,
             rGCRS = Some (Vec3 1 0 0), vGCRS = Some (Vec3 0 1 0),
             observer = equator_topos\<lparr>ephemeris := Some example_ephemeris\<rparr>,
             attached_ephemeris = Some example_ephemeris,
             attached_altaz_rotation = Mat3 (Vec3 0 0 1) (Vec3 0 1 0) (Vec3 1 0 0)\<rparr>"
proof -
  have n: "ephemeris equator_topos = None"
    by (simp add: equator_topos_def)
  have e: "example_ephemeris ''earth'' = Some (\<lambda>jd. (Vec3 10 20 30, Vec3 4 5 6))"
    by (simp add: example_ephemeris_def)
  have p: "position_and_velocity example_collaborators equator_topos example_date
     = (Vec3 1 0 0, Vec3 0 1 0)"
    using position_and_velocity_example [of "ephemeris equator_topos"] by simp
  have a: "altaz_rotation equator_topos example_date
     = Mat3 (Vec3 0 0 1) (Vec3 0 1 0) (Vec3 1 0 0)"
    using altaz_rotation_example [of "ephemeris equator_topos"] by simp
  show ?thesis
    using at_geocentric_or_barycentric
            [where self = equator_topos and ext = example_collaborators and jd = example_date]
          at_geocentric_or_barycentric
            [where self = "equator_topos\<lparr>ephemeris := Some example_ephemeris\<rparr>"
               and eph = example_ephemeris and earth = "\<lambda>jd. (Vec3 10 20 30, Vec3 4 5 6)"
               and ext = example_collaborators and jd = example_date]
    by (simp add: n e p a position_and_velocity_example altaz_rotation_example)
qed









text \<open>
  C9. With both polar offsets zero the two correction branches are skipped: the result is
  that of the pipeline without a polar-motion stage, and the position is \<open>MT \<cdot> posTerr\<close>.
  A location built with the default \<open>x\<close> and \<open>y\<close> has both offsets zero.
\<close>

theorem zero_offsets_skip_polar_stage:
  "(x self = 0 \<and> y self = 0 \<longrightarrow>
      position_and_velocity ext self jd = position_and_velocity_without_polar_stage ext self jd
      \<and> fst (position_and_velocity ext self jd) =
          mat_vec (MT jd) (fst (terra ext (radians (latitude self)) (radians (longitude self))
                                          (au (elevation self)) (gast jd))))
   \<and> (Topos_init ext kw = Inr self \<and> kw_x kw = kw_x defaults \<and> kw_y kw = kw_y defaults \<longrightarrow>
        x self = 0 \<and> y self = 0)"
  by (auto simp add: position_and_velocity_unfolded polar_motion_zero
      position_and_velocity_without_polar_stage_def Topos_init_def defaults_def
      split: prod.split sum.splits)

theorem zero_offsets_skip_polar_stage_witness:
  "x equator_topos = 0 \<and> y equator_topos = 0
   \<and> Topos_init example_collaborators equator_kwargs = Inr equator_topos
   \<and> kw_x equator_kwargs = kw_x defaults \<and> kw_y equator_kwargs = kw_y defaults
   \<and> position_and_velocity example_collaborators equator_topos example_date
       = position_and_velocity_without_polar_stage example_collaborators equator_topos
           example_date
   \<and> position_and_velocity_without_polar_stage example_collaborators equator_topos
           example_date = (Vec3 1 0 0, Vec3 0 1 0)"
proof -
  have xy: "x equator_topos = 0 \<and> y equator_topos = 0"
    by (simp add: equator_topos_def)
  have kw: "kw_x equator_kwargs = kw_x defaults \<and> kw_y equator_kwargs = kw_y defaults"
    by (simp add: equator_kwargs_def)
  have p: "position_and_velocity example_collaborators equator_topos example_date
     = (Vec3 1 0 0, Vec3 0 1 0)"
    using position_and_velocity_example [of "ephemeris equator_topos"] by simp
  have "position_and_velocity example_collaborators equator_topos example_date
       = position_and_velocity_without_polar_stage example_collaborators equator_topos
           example_date"
    using zero_offsets_skip_polar_stage
            [where ext = example_collaborators and self = equator_topos and jd = example_date
               and kw = equator_kwargs] xy
    by blast
  then show ?thesis
    using xy kw p Topos_init_equator by simp
qed

text \<open>
  C10. \<open>Topos.compute\<close> returns the pair of \<open>_position_and_velocity\<close>, and the function
  held by the one segment of the location, which has the location as its target, returns
  that pair too. It is the pair \<open>Topos.at\<close> works with: without an ephemeris the result of
  \<open>at\<close> holds the position and velocity that \<open>compute\<close> returns.
\<close>

theorem compute_is_position_and_velocity:
  "compute ext self jd = position_and_velocity ext self jd
   \<and> map (\<lambda>seg. compute_function seg jd) (segments ext self)
       = [position_and_velocity ext self jd]
   \<and> map target (segments ext self) = [self]
   \<and> (ephemeris self = None \<longrightarrow>
        (\<exists>g. Topos_at ext self jd = Inr g
           \<and> (position_au g, velocity_au_per_d g) = compute ext self jd))"
  by (simp add: compute_def segments_def Topos_at_def Let_def split: prod.split)

theorem compute_is_position_and_velocity_witness:
  "ephemeris equator_topos = None
   \<and> compute example_collaborators equator_topos example_date = (Vec3 1 0 0, Vec3 0 1 0)
   \<and> map (\<lambda>seg. compute_function seg example_date)
        (segments example_collaborators equator_topos) = [(Vec3 1 0 0, Vec3 0 1 0)]
   \<and> (\<exists>g. Topos_at example_collaborators equator_topos example_date = Inr g
         \<and> (position_au g, velocity_au_per_d g) = (Vec3 1 0 0, Vec3 0 1 0))"
proof -
  have n: "ephemeris equator_topos = None"
    by (simp add: equator_topos_def)
  have p: "position_and_velocity example_collaborators equator_topos example_date
     = (Vec3 1 0 0, Vec3 0 1 0)"
    using position_and_velocity_example [of "ephemeris equator_topos"] by simp
  note t = compute_is_position_and_velocity
          [where ext = example_collaborators and self = equator_topos and jd = example_date]
  from t p have c: "compute example_collaborators equator_topos example_date
     = (Vec3 1 0 0, Vec3 0 1 0)"
    by simp
  from t p have s: "map (\<lambda>seg. compute_function seg example_date)
        (segments example_collaborators equator_topos) = [(Vec3 1 0 0, Vec3 0 1 0)]"
    by simp
  from t n obtain g where "Topos_at example_collaborators equator_topos example_date = Inr g"
    and "(position_au g, velocity_au_per_d g)
           = compute example_collaborators equator_topos example_date"
    by blast
  then have "\<exists>g. Topos_at example_collaborators equator_topos example_date = Inr g
         \<and> (position_au g, velocity_au_per_d g) = (Vec3 1 0 0, Vec3 0 1 0)"
    using c by metis
  then show ?thesis
    using n c s by blast
qed

end
